theory Spec2Isabelle
  imports Main
begin

section \<open>JavaScript values, payloads and thrown values\<close>

text \<open>
  The machine client of \<^verbatim>\<open>src/api/apiMachine.ts\<close> handles untyped run-time values:
  decoded JSON, the parameters of a remote call, whatever a handler throws. They are
  modelled by a small universe of JavaScript values. Only truthiness, property lookup
  and equality of such values matter to the code, so numbers are integers here. An
  object is the list of its properties; where a key occurs twice the first occurrence
  is the property.
\<close>

datatype jsval =
    JUndefined
  | JNull
  | JBool bool
  | JNum int
  | JStr string
  | JArr "jsval list"
  | JObj "(string \<times> jsval) list"

text \<open>Truthiness, as tested by \<^verbatim>\<open>if (x)\<close>, \<^verbatim>\<open>!x\<close> and \<^verbatim>\<open>x || y\<close>.\<close>

fun truthy :: "jsval \<Rightarrow> bool" where
  "truthy JUndefined = False"
| "truthy JNull = False"
| "truthy (JBool b) = b"
| "truthy (JNum n) = (n \<noteq> 0)"
| "truthy (JStr s) = (s \<noteq> [])"
| "truthy (JArr xs) = True"
| "truthy (JObj kvs) = True"

text \<open>
  Reading a property that the destructuring \<^verbatim>\<open>const { directory, sessionId } = obj\<close>
  asks for: an object yields the stored value, anything else (and a missing key) yields
  \<^verbatim>\<open>undefined\<close>. The operand is never null or undefined there, because the code
  destructures \<^verbatim>\<open>paramObj || {}\<close>.
\<close>

fun get_prop :: "string \<Rightarrow> jsval \<Rightarrow> jsval" where
  "get_prop k (JObj kvs) = (case map_of kvs k of None \<Rightarrow> JUndefined | Some v \<Rightarrow> v)"
| "get_prop k v = JUndefined"

definition or_empty :: "jsval \<Rightarrow> jsval" where
  \<comment> \<open>\<^verbatim>\<open>paramObj || {}\<close>\<close>
  "or_empty v = (if truthy v then v else JObj [])"

text \<open>
  A thrown value: an \<^verbatim>\<open>Error\<close> object with its name and message, \<^verbatim>\<open>null\<close> or
  \<^verbatim>\<open>undefined\<close> (reading a property of these raises a TypeError), or any other value
  without a truthy \<^verbatim>\<open>message\<close> property, given by its \<^verbatim>\<open>String(...)\<close> rendering.
\<close>

datatype thrown =
    ThrownError string string
  | ThrownNullish
  | ThrownOther string

abbreviation Error :: "string \<Rightarrow> thrown" where
  \<comment> \<open>\<^verbatim>\<open>new Error(msg)\<close>\<close>
  "Error msg \<equiv> ThrownError ''Error'' msg"

text \<open>
  A serialized payload as it arrives, seen through
  \<^verbatim>\<open>typeof v === 'string' ? JSON.parse(v) : v\<close>: either a string that
  \<^verbatim>\<open>JSON.parse\<close> rejects (with the SyntaxError's message), or a value that decodes
  (a string that parses to the value, or a non-string used as it is).
\<close>

datatype wire = Unparsable string | Decodes jsval

fun parse_if_string :: "wire \<Rightarrow> thrown + jsval" where
  "parse_if_string (Unparsable msg) = Inl (ThrownError ''SyntaxError'' msg)"
| "parse_if_string (Decodes v) = Inr v"

section \<open>The Machine object and the client's state\<close>

record machine =
  machine_id :: string
  metadata :: jsval
  metadataVersion :: int
  daemonState :: jsval
  daemonStateVersion :: int

text \<open>What the client sends on its socket (\<^verbatim>\<open>JSON.stringify\<close> is left symbolic).\<close>

datatype emitted =
    Machine_update_metadata string jsval int
  | Machine_update_state string jsval int
  | Rpc_register string
  | Machine_alive string nat

text \<open>The acknowledgement of a commit (\<^verbatim>\<open>answer.result\<close> with its fields).\<close>

datatype answer =
    Result_error
  | Result_version_mismatch int wire
  | Result_success int wire

section \<open>Versioned state synchronisation\<close>

text \<open>
  One attempt is the body of the closure given to \<^verbatim>\<open>backoff\<close>. It has two halves,
  separated by the \<^verbatim>\<open>await\<close>: the request computed from the local baseline, and
  the handling of the acknowledgement, which returns the machine and what was thrown
  (\<open>None\<close> when the body returns normally).
\<close>

definition metadata_request :: "(jsval \<Rightarrow> jsval) \<Rightarrow> machine \<Rightarrow> emitted" where
  "metadata_request handler m =
     (let updated = handler (metadata m)
      in Machine_update_metadata (machine_id m) updated (metadataVersion m))"

definition metadata_ack :: "answer \<Rightarrow> machine \<Rightarrow> machine \<times> thrown option" where
  "metadata_ack ans m =
     (case ans of
        Result_success v w \<Rightarrow>
          (case parse_if_string w of
             Inl e \<Rightarrow> (m, Some e)
           | Inr x \<Rightarrow> (m\<lparr>metadata := x, metadataVersion := v\<rparr>, None))
      | Result_version_mismatch v w \<Rightarrow>
          (if v > metadataVersion m then
             (let m1 = m\<lparr>metadataVersion := v\<rparr>
              in case parse_if_string w of
                   Inl e \<Rightarrow> (m1, Some e)
                 | Inr x \<Rightarrow> (m1\<lparr>metadata := x\<rparr>, Some (Error ''Metadata version mismatch'')))
           else (m, Some (Error ''Metadata version mismatch'')))
      | Result_error \<Rightarrow> (m, None))"

definition daemonState_request :: "(jsval \<Rightarrow> jsval) \<Rightarrow> machine \<Rightarrow> emitted" where
  "daemonState_request handler m =
     (let updated = handler (daemonState m)
      in Machine_update_state (machine_id m) updated (daemonStateVersion m))"

definition daemonState_ack :: "answer \<Rightarrow> machine \<Rightarrow> machine \<times> thrown option" where
  "daemonState_ack ans m =
     (case ans of
        Result_success v w \<Rightarrow>
          (case parse_if_string w of
             Inl e \<Rightarrow> (m, Some e)
           | Inr x \<Rightarrow> (m\<lparr>daemonState := x, daemonStateVersion := v\<rparr>, None))
      | Result_version_mismatch v w \<Rightarrow>
          (if v > daemonStateVersion m then
             (let m1 = m\<lparr>daemonStateVersion := v\<rparr>
              in case parse_if_string w of
                   Inl e \<Rightarrow> (m1, Some e)
                 | Inr x \<Rightarrow> (m1\<lparr>daemonState := x\<rparr>, Some (Error ''Daemon state version mismatch'')))
           else (m, Some (Error ''Daemon state version mismatch'')))
      | Result_error \<Rightarrow> (m, None))"

text \<open>
  Modelled from the spec: \<^verbatim>\<open>backoff\<close> of \<^verbatim>\<open>@/utils/time\<close>, the Retry Policy, is
  not among the sources. It runs the operation and, when the operation fails, runs it
  again after a delay, until it succeeds. The acknowledgements the server will give, one
  per attempt, are the list \<open>answers\<close>; the run yields the requests sent, the machine,
  and whether the operation has completed (\<open>False\<close>: every acknowledgement so far made
  the attempt fail, and the policy is still retrying).
\<close>

fun backoff ::
  "(machine \<Rightarrow> emitted) \<Rightarrow> (answer \<Rightarrow> machine \<Rightarrow> machine \<times> thrown option) \<Rightarrow>
   answer list \<Rightarrow> machine \<Rightarrow> emitted list \<times> machine \<times> bool" where
  "backoff request ack [] m = ([], m, False)"
| "backoff request ack (a # answers) m =
     (case ack a m of
        (m', None) \<Rightarrow> ([request m], m', True)
      | (m', Some e) \<Rightarrow>
          (case backoff request ack answers m' of
             (sent, m'', done) \<Rightarrow> (request m # sent, m'', done)))"

definition updateMachineMetadata ::
  "(jsval \<Rightarrow> jsval) \<Rightarrow> answer list \<Rightarrow> machine \<Rightarrow> emitted list \<times> machine \<times> bool" where
  "updateMachineMetadata handler = backoff (metadata_request handler) metadata_ack"

definition updateDaemonState ::
  "(jsval \<Rightarrow> jsval) \<Rightarrow> answer list \<Rightarrow> machine \<Rightarrow> emitted list \<times> machine \<times> bool" where
  "updateDaemonState handler = backoff (daemonState_request handler) daemonState_ack"

section \<open>Handlers, timers and observable effects\<close>

text \<open>
  Modelled from the spec: \<^verbatim>\<open>TrackedSession\<close> of \<^verbatim>\<open>@/daemon/api/types\<close> is not among
  the sources; the handle has a session identifier that may be absent, a process id, an
  error when the spawn failed, and a message.
\<close>

record tracked_session =
  happySessionId :: "string option"
  pid :: nat
  error :: "string option"
  message :: "string option"

text \<open>A call of an externally supplied handler returns a value or throws.\<close>

datatype 'a outcome = Returns 'a | Throws thrown

datatype task = Shutdown_from_rpc | Keep_alive

datatype effect =
    Emit emitted
  | Callback jsval
  | Call_spawnSession jsval jsval
  | Call_stopSession jsval
  | Call_requestShutdown
  | Socket_close
  | Uncaught thrown

text \<open>
  The fields of \<^verbatim>\<open>ApiMachineClient\<close>. A handler that is not bound is \<open>None\<close>;
  \<open>has_socket\<close> says whether \<^verbatim>\<open>connect()\<close> has created the socket.
\<close>

record client =
  machine :: machine
  keepAliveInterval :: "nat option"
  spawnSession :: "(jsval \<Rightarrow> jsval \<Rightarrow> tracked_session option outcome) option"
  stopSession :: "(jsval \<Rightarrow> bool outcome) option"
  requestShutdown :: "(unit \<Rightarrow> unit outcome) option"
  has_socket :: bool

text \<open>
  The part of the JavaScript run time the client acts on: the clock in milliseconds, the
  pending one-shot timers (due time and task), the active interval timers (handle,
  period, the time of the next run, and task), the next fresh timer handle, the process
  id, and the effects performed so far in their order. A response \<^verbatim>\<open>callback(JSON.stringify(x))\<close> is the
  effect \<open>Callback x\<close>.
\<close>

record runtime =
  clock :: nat
  timeouts :: "(nat \<times> task) list"
  intervals :: "(nat \<times> nat \<times> nat \<times> task) list"
  next_handle :: nat
  process_pid :: nat
  effects :: "effect list"

definition perform :: "effect \<Rightarrow> runtime \<Rightarrow> runtime" where
  "perform x r = r\<lparr>effects := effects r @ [x]\<rparr>"

definition setTimeout :: "task \<Rightarrow> nat \<Rightarrow> runtime \<Rightarrow> runtime" where
  "setTimeout tk delay r = r\<lparr>timeouts := timeouts r @ [(clock r + delay, tk)]\<rparr>"


definition clearInterval :: "nat \<Rightarrow> runtime \<Rightarrow> runtime" where
  "clearInterval h r = r\<lparr>intervals := filter (\<lambda>t. fst t \<noteq> h) (intervals r)\<rparr>"

definition setRPCHandlers ::
  "(jsval \<Rightarrow> jsval \<Rightarrow> tracked_session option outcome) \<Rightarrow> (jsval \<Rightarrow> bool outcome) \<Rightarrow>
   (unit \<Rightarrow> unit outcome) \<Rightarrow> client \<Rightarrow> client" where
  "setRPCHandlers spawn stop shut c =
     c\<lparr>spawnSession := Some spawn, stopSession := Some stop, requestShutdown := Some shut\<rparr>"

section \<open>The RPC dispatcher\<close>

record rpc_data =
  rpc_method :: string
  rpc_params :: wire

definition spawnMethod :: "machine \<Rightarrow> string" where
  "spawnMethod m = machine_id m @ '':spawn-happy-session''"

definition stopMethod :: "machine \<Rightarrow> string" where
  "stopMethod m = machine_id m @ '':stop-session''"

definition stopDaemonMethod :: "machine \<Rightarrow> string" where
  "stopDaemonMethod m = machine_id m @ '':stop-daemon''"

text \<open>Decimal rendering of a number inside a template string.\<close>

function show_nat :: "nat \<Rightarrow> string" where
  "show_nat n =
     (if n < 10 then [''0123456789'' ! n]
      else show_nat (n div 10) @ [''0123456789'' ! (n mod 10)])"
  by pat_completeness auto
termination
  by (relation "measure id") auto

definition of_opt :: "string option \<Rightarrow> jsval" where
  "of_opt x = (case x of None \<Rightarrow> JUndefined | Some s \<Rightarrow> JStr s)"

definition present :: "string option \<Rightarrow> string option" where
  \<comment> \<open>an optional string field when it is truthy: there, and not the empty string\<close>
  "present x = (case x of None \<Rightarrow> None | Some s \<Rightarrow> if s = [] then None else Some s)"

definition spawn_branch :: "rpc_data \<Rightarrow> client \<Rightarrow> runtime \<Rightarrow> runtime \<times> thrown option" where
  "spawn_branch d c r =
     (case spawnSession c of
        None \<Rightarrow> (r, Some (Error ''Spawn session handler not set''))
      | Some handler \<Rightarrow>
          (case parse_if_string (rpc_params d) of
             Inl e \<Rightarrow> (r, Some e)
           | Inr paramObj \<Rightarrow>
               (let directory = get_prop ''directory'' (or_empty paramObj);
                    sessionId = get_prop ''sessionId'' (or_empty paramObj)
                in if \<not> truthy directory then (r, Some (Error ''Directory is required''))
                   else
                     (let r1 = perform (Call_spawnSession directory sessionId) r
                      in case handler directory sessionId of
                           Throws e \<Rightarrow> (r1, Some e)
                         | Returns None \<Rightarrow> (r1, Some (Error ''Failed to spawn session''))
                         | Returns (Some session) \<Rightarrow>
                             (case present (error session) of
                                Some msg \<Rightarrow> (r1, Some (Error msg))
                              | None \<Rightarrow>
                                  (case present (happySessionId session) of
                                     None \<Rightarrow>
                                       (r1, Some (Error (''Session spawned (PID ''
                                          @ show_nat (pid session)
                                          @ '') but no sessionId received from webhook. ''
                                          @ ''The session process may still be initializing.'')))
                                   | Some sid \<Rightarrow>
                                       (perform (Callback (JObj
                                          [(''sessionId'', JStr sid),
                                           (''message'', of_opt (message session))])) r1,
                                        None)))))))"

definition stop_branch :: "rpc_data \<Rightarrow> client \<Rightarrow> runtime \<Rightarrow> runtime \<times> thrown option" where
  "stop_branch d c r =
     (case parse_if_string (rpc_params d) of
        Inl e \<Rightarrow> (r, Some e)
      | Inr paramObj \<Rightarrow>
          (let sessionId = get_prop ''sessionId'' (or_empty paramObj)
           in case stopSession c of
                None \<Rightarrow> (r, Some (Error ''Stop session handler not set''))
              | Some handler \<Rightarrow>
                  (if \<not> truthy sessionId then (r, Some (Error ''Session ID is required''))
                   else
                     (let r1 = perform (Call_stopSession sessionId) r
                      in case handler sessionId of
                           Throws e \<Rightarrow> (r1, Some e)
                         | Returns success \<Rightarrow>
                             (if \<not> success
                              then (r1, Some (Error ''Session not found or failed to stop''))
                              else (perform (Callback (JObj [(''message'', JStr ''Session stopped'')])) r1,
                                    None))))))"

definition stop_daemon_ack :: jsval where
  "stop_daemon_ack =
     JObj [(''message'', JStr ''Daemon stop request acknowledged, starting shutdown sequence...'')]"

definition stop_daemon_branch :: "runtime \<Rightarrow> runtime \<times> thrown option" where
  "stop_daemon_branch r =
     (let r1 = perform (Callback stop_daemon_ack) r;
          r2 = setTimeout Shutdown_from_rpc 100 r1
      in (r2, None))"

text \<open>The body of the \<^verbatim>\<open>try\<close> block: the runtime reached and what was thrown.\<close>

definition rpc_try :: "rpc_data \<Rightarrow> client \<Rightarrow> runtime \<Rightarrow> runtime \<times> thrown option" where
  "rpc_try d c r =
     (if rpc_method d = spawnMethod (machine c) then spawn_branch d c r
      else if rpc_method d = stopMethod (machine c) then stop_branch d c r
      else if rpc_method d = stopDaemonMethod (machine c) then stop_daemon_branch r
      else (r, Some (Error (''Unknown RPC method: '' @ rpc_method d))))"

text \<open>\<^verbatim>\<open>String(error)\<close> and \<^verbatim>\<open>error.message || String(error)\<close> for a thrown value.\<close>

fun to_String :: "thrown \<Rightarrow> string" where
  "to_String (ThrownError name msg) =
     (if msg = [] then name else if name = [] then msg else name @ '': '' @ msg)"
| "to_String ThrownNullish = ''undefined''"
| "to_String (ThrownOther s) = s"

text \<open>
  The \<^verbatim>\<open>catch\<close> block reads \<^verbatim>\<open>error.message\<close> for its log line before it
  answers; on \<^verbatim>\<open>null\<close> or \<^verbatim>\<open>undefined\<close> that read raises a TypeError, which
  leaves the handler.
\<close>

definition error_object :: "string \<Rightarrow> jsval" where
  \<comment> \<open>\<^verbatim>\<open>{ error: msg }\<close>\<close>
  "error_object msg = JObj [(''error'', JStr msg)]"

fun rpc_catch :: "thrown \<Rightarrow> runtime \<Rightarrow> runtime \<times> thrown option" where
  "rpc_catch ThrownNullish r =
     (r, Some (ThrownError ''TypeError'' ''Cannot read properties of undefined''))"
| "rpc_catch (ThrownError name msg) r =
     (perform (Callback (error_object
        (if msg \<noteq> [] then msg else to_String (ThrownError name msg)))) r, None)"
| "rpc_catch (ThrownOther s) r =
     (perform (Callback (error_object (to_String (ThrownOther s)))) r, None)"

text \<open>
  The handler of \<^verbatim>\<open>rpc-request\<close>: the runtime after it, and the exception that left
  it unanswered, if any.
\<close>

definition rpc_request :: "rpc_data \<Rightarrow> client \<Rightarrow> runtime \<Rightarrow> runtime \<times> thrown option" where
  "rpc_request d c r =
     (case rpc_try d c r of
        (r', None) \<Rightarrow> (r', None)
      | (r', Some e) \<Rightarrow> rpc_catch e r')"

text \<open>The responses given so far: the arguments of the callback invocations, in order.\<close>

definition responses :: "effect list \<Rightarrow> jsval list" where
  "responses xs = concat (map (\<lambda>x. case x of Callback v \<Rightarrow> [v] | _ \<Rightarrow> []) xs)"

text \<open>
  A piece of the handler that started in runtime \<open>r\<close> has answered properly when it
  gave exactly one response if it returned, and none if it threw.
\<close>

definition answered :: "runtime \<Rightarrow> runtime \<times> thrown option \<Rightarrow> bool" where
  "answered r res =
     (case snd res of
        None \<Rightarrow> (\<exists>x. responses (effects (fst res)) = responses (effects r) @ [x])
      | Some e \<Rightarrow> responses (effects (fst res)) = responses (effects r))"

text \<open>What a timer's callback does when it runs.\<close>

definition run_task :: "task \<Rightarrow> client \<Rightarrow> runtime \<Rightarrow> runtime" where
  "run_task tk c r =
     (case tk of
        Shutdown_from_rpc \<Rightarrow>
          (case requestShutdown c of
             None \<Rightarrow> r
           | Some handler \<Rightarrow>
               (let r1 = perform Call_requestShutdown r
                in case handler () of Returns u \<Rightarrow> r1 | Throws e \<Rightarrow> perform (Uncaught e) r1))
      | Keep_alive \<Rightarrow>
          perform (Emit (Machine_alive (machine_id (machine c)) (clock r))) r)"

text \<open>
  Time passes until the clock shows \<open>t\<close>: the one-shot timers that are due by then run,
  in the order they were set, and are removed. A timer set with delay \<open>d\<close> at time \<open>t0\<close>
  is due at \<open>t0 + d\<close>.
\<close>

fun run_due :: "nat \<Rightarrow> client \<Rightarrow> (nat \<times> task) list \<Rightarrow> runtime \<Rightarrow> runtime" where
  "run_due t c [] r = r"
| "run_due t c ((due, tk) # ts) r =
     (if due \<le> t then run_due t c ts (run_task tk c r) else run_due t c ts r)"

definition advance_to :: "nat \<Rightarrow> client \<Rightarrow> runtime \<Rightarrow> runtime" where
  "advance_to t c r =
     (let pending = timeouts r;
          r1 = r\<lparr>clock := max t (clock r), timeouts := filter (\<lambda>p. \<not> fst p \<le> t) pending\<rparr>
      in run_due t c pending r1)"

section \<open>Update ingest\<close>

text \<open>
  Modelled from the spec: \<^verbatim>\<open>Update\<close> and \<^verbatim>\<open>UpdateMachineBody\<close> of
  \<^verbatim>\<open>./types\<close> are not among the sources. The body of an update has a type tag; a
  machine update has the target machine id and, each optional, a metadata and a daemon
  state sub-update, a serialized value with its version.
\<close>

record versioned =
  wire_value :: wire
  wire_version :: int

record update_body =
  tag :: string
  u_machineId :: "string option"
  u_metadata :: "versioned option"
  u_daemonState :: "versioned option"

definition ingest_metadata :: "versioned option \<Rightarrow> machine \<Rightarrow> machine \<times> thrown option" where
  "ingest_metadata u m =
     (case u of
        None \<Rightarrow> (m, None)
      | Some x \<Rightarrow>
          (case parse_if_string (wire_value x) of
             Inl e \<Rightarrow> (m, Some e)
           | Inr v \<Rightarrow> (m\<lparr>metadata := v, metadataVersion := wire_version x\<rparr>, None)))"

definition ingest_daemonState :: "versioned option \<Rightarrow> machine \<Rightarrow> machine \<times> thrown option" where
  "ingest_daemonState u m =
     (case u of
        None \<Rightarrow> (m, None)
      | Some x \<Rightarrow>
          (case parse_if_string (wire_value x) of
             Inl e \<Rightarrow> (m, Some e)
           | Inr v \<Rightarrow> (m\<lparr>daemonState := v, daemonStateVersion := wire_version x\<rparr>, None)))"

text \<open>The handler of \<^verbatim>\<open>update\<close>: the machine after it, and what it threw, if anything.\<close>

definition on_update :: "update_body \<Rightarrow> machine \<Rightarrow> machine \<times> thrown option" where
  "on_update b m =
     (if tag b = ''update-machine'' \<and> u_machineId b = Some (machine_id m) then
        (case ingest_metadata (u_metadata b) m of
           (m1, Some e) \<Rightarrow> (m1, Some e)
         | (m1, None) \<Rightarrow> ingest_daemonState (u_daemonState b) m1)
      else (m, None))"

section \<open>Heartbeat and connection life cycle\<close>

definition stopKeepAlive :: "client \<times> runtime \<Rightarrow> client \<times> runtime" where
  "stopKeepAlive cr =
     (case cr of (c, r) \<Rightarrow>
        (case keepAliveInterval c of
           Some h \<Rightarrow> (c\<lparr>keepAliveInterval := None\<rparr>, clearInterval h r)
         | None \<Rightarrow> (c, r)))"


definition shutdown :: "client \<times> runtime \<Rightarrow> client \<times> runtime" where
  "shutdown cr =
     (case stopKeepAlive cr of (c, r) \<Rightarrow>
        (if has_socket c then (c, perform Socket_close r) else (c, r)))"



definition register_all :: "client \<Rightarrow> runtime \<Rightarrow> runtime" where
  "register_all c r =
     perform (Emit (Rpc_register (stopDaemonMethod (machine c))))
       (perform (Emit (Rpc_register (stopMethod (machine c))))
          (perform (Emit (Rpc_register (spawnMethod (machine c)))) r))"









text \<open>
  A client as the constructor leaves it and \<^verbatim>\<open>connect()\<close> has given it a socket, in
  a run time with no timer yet.
\<close>

definition new_client :: "machine \<Rightarrow> client" where
  "new_client m =
     \<lparr>machine = m, keepAliveInterval = None, spawnSession = None, stopSession = None,
      requestShutdown = None, has_socket = True\<rparr>"

definition fresh_runtime :: "nat \<Rightarrow> nat \<Rightarrow> runtime" where
  "fresh_runtime now p =
     \<lparr>clock = now, timeouts = [], intervals = [], next_handle = 0, process_pid = p,
      effects = []\<rparr>"

section \<open>Sequences of mutations of the Machine object\<close>

text \<open>
  The three places that write the Machine object: the acknowledgement of a metadata
  commit, the acknowledgement of a daemon state commit, and an update pushed by the
  server. Each runs to its end without interleaving.
\<close>

datatype mutation = Metadata_ack answer | DaemonState_ack answer | Pushed update_body

fun mutate :: "mutation \<Rightarrow> machine \<Rightarrow> machine" where
  "mutate (Metadata_ack a) m = fst (metadata_ack a m)"
| "mutate (DaemonState_ack a) m = fst (daemonState_ack a m)"
| "mutate (Pushed b) m = fst (on_update b m)"

fun mutate_all :: "mutation list \<Rightarrow> machine \<Rightarrow> machine" where
  "mutate_all [] m = m"
| "mutate_all (x # xs) m = mutate_all xs (mutate x m)"

text \<open>
  Vocabulary for statements about mutations. A mutation is stale for a machine when a
  path that overwrites without comparing (a success acknowledgement, a sub-update of a
  pushed update that matches the machine) brings a version lower than the local one.
\<close>

definition lower_version :: "versioned option \<Rightarrow> int \<Rightarrow> bool" where
  "lower_version u local = (case u of None \<Rightarrow> False | Some x \<Rightarrow> wire_version x < local)"

fun stale :: "mutation \<Rightarrow> machine \<Rightarrow> bool" where
  "stale (Metadata_ack (Result_success v w)) m = (v < metadataVersion m)"
| "stale (Metadata_ack a) m = False"
| "stale (DaemonState_ack (Result_success v w)) m = (v < daemonStateVersion m)"
| "stale (DaemonState_ack a) m = False"
| "stale (Pushed b) m =
     (tag b = ''update-machine'' \<and> u_machineId b = Some (machine_id m)
      \<and> (lower_version (u_metadata b) (metadataVersion m)
         \<or> lower_version (u_daemonState b) (daemonStateVersion m)))"

fun never_stale :: "mutation list \<Rightarrow> machine \<Rightarrow> bool" where
  "never_stale [] m = True"
| "never_stale (x # xs) m = (\<not> stale x m \<and> never_stale xs (mutate x m))"

text \<open>The value and version a payload brings, when the payload deserialises.\<close>

fun received :: "wire \<Rightarrow> int \<Rightarrow> (jsval \<times> int) option" where
  "received (Decodes x) v = Some (x, v)"
| "received (Unparsable s) v = None"

definition received_sub :: "versioned option \<Rightarrow> (jsval \<times> int) option" where
  "received_sub u = (case u of None \<Rightarrow> None | Some x \<Rightarrow> received (wire_value x) (wire_version x))"

fun metadata_received :: "mutation \<Rightarrow> (jsval \<times> int) option" where
  "metadata_received (Metadata_ack (Result_success v w)) = received w v"
| "metadata_received (Metadata_ack (Result_version_mismatch v w)) = received w v"
| "metadata_received (Pushed b) = received_sub (u_metadata b)"
| "metadata_received x = None"

fun daemonState_received :: "mutation \<Rightarrow> (jsval \<times> int) option" where
  "daemonState_received (DaemonState_ack (Result_success v w)) = received w v"
| "daemonState_received (DaemonState_ack (Result_version_mismatch v w)) = received w v"
| "daemonState_received (Pushed b) = received_sub (u_daemonState b)"
| "daemonState_received x = None"

text \<open>
  Any mutation except the acknowledgement of a version mismatch whose value does not
  deserialise.
\<close>

fun not_garbled_mismatch :: "mutation \<Rightarrow> bool" where
  "not_garbled_mismatch (Metadata_ack (Result_version_mismatch v (Unparsable s))) = False"
| "not_garbled_mismatch (DaemonState_ack (Result_version_mismatch v (Unparsable s))) = False"
| "not_garbled_mismatch x = True"


section \<open>Example inputs\<close>

text \<open>Concrete machines, transforms, handlers and requests for the closed theorems below.\<close>

definition example_machine :: machine where
  "example_machine =
     \<lparr>machine_id = ''m1'', metadata = JStr ''stale'', metadataVersion = 3,
      daemonState = JNull, daemonStateVersion = 3\<rparr>"

definition append_mark :: "jsval \<Rightarrow> jsval" where
  "append_mark v = JArr [v, JStr ''renamed'']"

definition example_client :: client where
  "example_client = new_client example_machine"

definition rejecting_spawn :: "jsval \<Rightarrow> jsval \<Rightarrow> tracked_session option outcome" where
  \<comment> \<open>a handler whose promise is rejected without a reason\<close>
  "rejecting_spawn directory sessionId = Throws ThrownNullish"



definition quiet_shutdown :: "unit \<Rightarrow> unit outcome" where
  "quiet_shutdown u = Returns ()"

definition spawn_request :: rpc_data where
  "spawn_request =
     \<lparr>rpc_method = ''m1:spawn-happy-session'',
      rpc_params = Decodes (JObj [(''directory'', JStr ''/tmp'')])\<rparr>"


definition stop_daemon_request :: rpc_data where
  "stop_daemon_request = \<lparr>rpc_method = ''m1:stop-daemon'', rpc_params = Decodes JUndefined\<rparr>"

definition pushed_version_2 :: update_body where
  "pushed_version_2 =
     \<lparr>tag = ''update-machine'', u_machineId = Some ''m1'',
      u_metadata = Some \<lparr>wire_value = Decodes (JStr ''old name''), wire_version = 2\<rparr>,
      u_daemonState = None\<rparr>"

definition pushed_garbled_metadata :: update_body where
  "pushed_garbled_metadata =
     \<lparr>tag = ''update-machine'', u_machineId = Some ''m1'',
      u_metadata = Some \<lparr>wire_value = Unparsable ''Unexpected token'', wire_version = 7\<rparr>,
      u_daemonState = Some \<lparr>wire_value = Decodes (JStr ''running''), wire_version = 9\<rparr>\<rparr>"

definition pushed_both :: update_body where
  "pushed_both =
     \<lparr>tag = ''update-machine'', u_machineId = Some ''m1'',
      u_metadata = Some \<lparr>wire_value = Decodes (JStr ''laptop''), wire_version = 7\<rparr>,
      u_daemonState = Some \<lparr>wire_value = Decodes (JStr ''running''), wire_version = 9\<rparr>\<rparr>"

definition pushed_garbled_daemonState :: update_body where
  "pushed_garbled_daemonState =
     \<lparr>tag = ''update-machine'', u_machineId = Some ''m1'',
      u_metadata = Some \<lparr>wire_value = Decodes (JStr ''laptop''), wire_version = 7\<rparr>,
      u_daemonState = Some \<lparr>wire_value = Unparsable ''Unexpected end'', wire_version = 9\<rparr>\<rparr>"




section \<open>Properties of the synchroniser\<close>

lemma backoff_retry:
  "ack a m = (m', Some e) \<Longrightarrow>
   backoff request ack (a # answers) m =
     (request m # fst (backoff request ack answers m'), snd (backoff request ack answers m'))"
  by (simp split: prod.splits)

lemma backoff_done:
  "ack a m = (m', None) \<Longrightarrow> backoff request ack (a # answers) m = ([request m], m', True)"
  by simp

text \<open>
  The handling of a version mismatch whose value deserialises: when the reported version
  is strictly greater than the local one, the local value and version become the
  reported pair and the attempt fails with the mismatch error, so that the retry sends
  the transform of the reported value with the reported version as the expected one.
  When the reported version is not greater, the machine is left as it was and the
  attempt fails with the same error, so that the retry starts from the same baseline.
\<close>

theorem version_mismatch_rebaselines:
  "(metadataVersion m < v \<longrightarrow>
      metadata_ack (Result_version_mismatch v (Decodes x)) m =
        (m\<lparr>metadataVersion := v, metadata := x\<rparr>, Some (Error ''Metadata version mismatch''))
    \<and> updateMachineMetadata handler (Result_version_mismatch v (Decodes x) # answers) m =
        (Machine_update_metadata (machine_id m) (handler (metadata m)) (metadataVersion m)
           # fst (updateMachineMetadata handler answers (m\<lparr>metadataVersion := v, metadata := x\<rparr>)),
         snd (updateMachineMetadata handler answers (m\<lparr>metadataVersion := v, metadata := x\<rparr>)))
    \<and> metadata_request handler (m\<lparr>metadataVersion := v, metadata := x\<rparr>) =
        Machine_update_metadata (machine_id m) (handler x) v)
   \<and> (\<not> metadataVersion m < v \<longrightarrow>
      metadata_ack (Result_version_mismatch v w) m = (m, Some (Error ''Metadata version mismatch''))
    \<and> updateMachineMetadata handler (Result_version_mismatch v w # answers) m =
        (metadata_request handler m # fst (updateMachineMetadata handler answers m),
         snd (updateMachineMetadata handler answers m)))
   \<and> (daemonStateVersion m < v \<longrightarrow>
      daemonState_ack (Result_version_mismatch v (Decodes x)) m =
        (m\<lparr>daemonStateVersion := v, daemonState := x\<rparr>,
         Some (Error ''Daemon state version mismatch''))
    \<and> updateDaemonState handler (Result_version_mismatch v (Decodes x) # answers) m =
        (Machine_update_state (machine_id m) (handler (daemonState m)) (daemonStateVersion m)
           # fst (updateDaemonState handler answers (m\<lparr>daemonStateVersion := v, daemonState := x\<rparr>)),
         snd (updateDaemonState handler answers (m\<lparr>daemonStateVersion := v, daemonState := x\<rparr>)))
    \<and> daemonState_request handler (m\<lparr>daemonStateVersion := v, daemonState := x\<rparr>) =
        Machine_update_state (machine_id m) (handler x) v)
   \<and> (\<not> daemonStateVersion m < v \<longrightarrow>
      daemonState_ack (Result_version_mismatch v w) m =
        (m, Some (Error ''Daemon state version mismatch''))
    \<and> updateDaemonState handler (Result_version_mismatch v w # answers) m =
        (daemonState_request handler m # fst (updateDaemonState handler answers m),
         snd (updateDaemonState handler answers m)))"
  by (simp add: metadata_ack_def daemonState_ack_def updateMachineMetadata_def
        updateDaemonState_def metadata_request_def daemonState_request_def split: prod.splits)

text \<open>
  The scenario of the specification: a client at version 3 is told of version 5 with
  value X, sends the transform of X expecting version 5, and ends at version 6. A
  mismatch that reports version 2 changes nothing.
\<close>

theorem version_mismatch_rebaselines_witness:
  "metadataVersion example_machine < 5
   \<and> updateMachineMetadata append_mark
       [Result_version_mismatch 5 (Decodes (JStr ''X'')),
        Result_success 6 (Decodes (JArr [JStr ''X'', JStr ''renamed'']))] example_machine =
      ([Machine_update_metadata ''m1'' (JArr [JStr ''stale'', JStr ''renamed'']) 3,
        Machine_update_metadata ''m1'' (JArr [JStr ''X'', JStr ''renamed'']) 5],
       example_machine\<lparr>metadataVersion := 6, metadata := JArr [JStr ''X'', JStr ''renamed'']\<rparr>,
       True)
   \<and> \<not> metadataVersion example_machine < 2
   \<and> metadata_ack (Result_version_mismatch 2 (Unparsable ''Unexpected end'')) example_machine =
      (example_machine, Some (Error ''Metadata version mismatch''))
   \<and> daemonStateVersion example_machine < 5
   \<and> daemonState_ack (Result_version_mismatch 5 (Decodes (JStr ''X''))) example_machine =
      (example_machine\<lparr>daemonStateVersion := 5, daemonState := JStr ''X''\<rparr>,
       Some (Error ''Daemon state version mismatch''))
   \<and> \<not> daemonStateVersion example_machine < 3
   \<and> daemonState_ack (Result_version_mismatch 3 (Decodes (JStr ''X''))) example_machine =
      (example_machine, Some (Error ''Daemon state version mismatch''))"
  using version_mismatch_rebaselines [of example_machine 5 "JStr ''X''" append_mark
      "[Result_success 6 (Decodes (JArr [JStr ''X'', JStr ''renamed'']))]"]
    version_mismatch_rebaselines [of example_machine 2 _ _ _ "Unparsable ''Unexpected end''"]
    version_mismatch_rebaselines [of example_machine 3 _ _ _ "Decodes (JStr ''X'')"]
  by (simp add: example_machine_def append_mark_def updateMachineMetadata_def
        metadata_request_def metadata_ack_def)

text \<open>
  C1, at a failing input: the acknowledgement is a version mismatch that reports version
  5, above the local version 3, with a value that is not JSON. The version is assigned
  before the value is parsed, so the local version becomes 5 while the local value stays
  the stale one, and the parse error makes the attempt fail. The retry then sends the
  transform of the stale value with 5 as the expected version; the same happens to the
  daemon state.
\<close>

theorem version_mismatch_garbled_value:
  "metadataVersion example_machine < 5
   \<and> metadata_ack (Result_version_mismatch 5 (Unparsable ''Unexpected token'')) example_machine =
      (example_machine\<lparr>metadataVersion := 5\<rparr>,
       Some (ThrownError ''SyntaxError'' ''Unexpected token''))
   \<and> metadata (fst (metadata_ack (Result_version_mismatch 5 (Unparsable ''Unexpected token''))
        example_machine)) = JStr ''stale''
   \<and> fst (updateMachineMetadata append_mark
        [Result_version_mismatch 5 (Unparsable ''Unexpected token''), Result_error]
        example_machine) =
      [Machine_update_metadata ''m1'' (JArr [JStr ''stale'', JStr ''renamed'']) 3,
       Machine_update_metadata ''m1'' (JArr [JStr ''stale'', JStr ''renamed'']) 5]
   \<and> daemonStateVersion example_machine < 5
   \<and> daemonState_ack (Result_version_mismatch 5 (Unparsable ''Unexpected token''))
        example_machine =
      (example_machine\<lparr>daemonStateVersion := 5\<rparr>,
       Some (ThrownError ''SyntaxError'' ''Unexpected token''))
   \<and> fst (updateDaemonState append_mark
        [Result_version_mismatch 5 (Unparsable ''Unexpected token''), Result_error]
        example_machine) =
      [Machine_update_state ''m1'' (JArr [JNull, JStr ''renamed'']) 3,
       Machine_update_state ''m1'' (JArr [JNull, JStr ''renamed'']) 5]"
  by (simp add: metadata_ack_def daemonState_ack_def updateMachineMetadata_def
        updateDaemonState_def metadata_request_def daemonState_request_def
        example_machine_def append_mark_def)

text \<open>
  Where the success branch parses the value before it assigns anything, a value that is
  not JSON leaves value and version as they were.
\<close>

lemma success_garbled_value_keeps_pair:
  "metadata_ack (Result_success v (Unparsable syn)) m = (m, Some (ThrownError ''SyntaxError'' syn))"
  "daemonState_ack (Result_success v (Unparsable syn)) m =
     (m, Some (ThrownError ''SyntaxError'' syn))"
  by (simp_all add: metadata_ack_def daemonState_ack_def)

text \<open>
  C2 (as the code has it): when the acknowledgement is the error outcome, the attempt
  returns normally with the machine unchanged, so the operation completes after that
  one request and nothing is retried.
\<close>

theorem error_outcome_completes:
  "metadata_ack Result_error m = (m, None)
   \<and> updateMachineMetadata handler (Result_error # answers) m =
       ([metadata_request handler m], m, True)
   \<and> daemonState_ack Result_error m = (m, None)
   \<and> updateDaemonState handler (Result_error # answers) m =
       ([daemonState_request handler m], m, True)"
  by (simp add: metadata_ack_def daemonState_ack_def updateMachineMetadata_def
        updateDaemonState_def)

text \<open>
  An error outcome followed by an acknowledgement that would have succeeded: no failure
  is signalled, one request is sent, and the operation has completed at version 3.
\<close>

theorem error_outcome_not_retried:
  "snd (metadata_ack Result_error example_machine) = None
   \<and> updateMachineMetadata append_mark
        [Result_error, Result_success 4 (Decodes (JArr [JStr ''stale'', JStr ''renamed'']))]
        example_machine =
      ([Machine_update_metadata ''m1'' (JArr [JStr ''stale'', JStr ''renamed'']) 3],
       example_machine, True)"
  by (simp add: metadata_ack_def updateMachineMetadata_def metadata_request_def
        example_machine_def append_mark_def)

section \<open>Properties of the RPC dispatcher\<close>

lemma method_names_distinct:
  "spawnMethod m \<noteq> stopMethod m" "spawnMethod m \<noteq> stopDaemonMethod m"
  "stopMethod m \<noteq> stopDaemonMethod m" "stopMethod m \<noteq> spawnMethod m"
  "stopDaemonMethod m \<noteq> spawnMethod m" "stopDaemonMethod m \<noteq> stopMethod m"
  by (simp_all add: spawnMethod_def stopMethod_def stopDaemonMethod_def)


lemma example_methods:
  "spawnMethod (machine example_client) = ''m1:spawn-happy-session''"
  "stopMethod (machine example_client) = ''m1:stop-session''"
  "stopDaemonMethod (machine example_client) = ''m1:stop-daemon''"
  by (simp_all add: spawnMethod_def stopMethod_def stopDaemonMethod_def example_client_def
        new_client_def example_machine_def)

lemma example_handlers:
  "spawnSession example_client = None" "stopSession example_client = None"
  "requestShutdown example_client = None"
  by (simp_all add: example_client_def new_client_def)

text \<open>
  C3, at a failing input: a spawn request with a directory reaches a bound spawn handler
  whose promise is rejected without a reason. The handler is called, the \<^verbatim>\<open>catch\<close>
  block fails on reading \<^verbatim>\<open>error.message\<close>, no response callback is invoked and a
  TypeError leaves the dispatcher.
\<close>

theorem nullish_rejection_unanswered:
  "rpc_request spawn_request (example_client\<lparr>spawnSession := Some rejecting_spawn\<rparr>)
     (fresh_runtime 0 1) =
     ((fresh_runtime 0 1)\<lparr>effects := [Call_spawnSession (JStr ''/tmp'') JUndefined]\<rparr>,
      Some (ThrownError ''TypeError'' ''Cannot read properties of undefined''))"
  by (simp add: rpc_request_def rpc_try_def spawn_branch_def spawn_request_def
        example_client_def new_client_def example_machine_def spawnMethod_def
        rejecting_spawn_def or_empty_def perform_def fresh_runtime_def)

text \<open>
  Apart from that case the dispatcher answers exactly once: when what the \<^verbatim>\<open>try\<close>
  block throws is not null or undefined, nothing leaves the handler and one response
  is added to those given before.
\<close>

lemma responses_perform_Callback [simp]:
  "responses (effects (perform (Callback x) r)) = responses (effects r) @ [x]"
  by (simp add: perform_def responses_def)

lemma responses_perform_call [simp]:
  "responses (effects (perform (Call_spawnSession a b) r)) = responses (effects r)"
  "responses (effects (perform (Call_stopSession a) r)) = responses (effects r)"
  by (simp_all add: perform_def responses_def)

lemma responses_setTimeout [simp]:
  "responses (effects (setTimeout tk delay r)) = responses (effects r)"
  by (simp add: setTimeout_def)

lemma answered_simps [simp]:
  "answered r (r, Some e)"
  "answered r (perform (Call_spawnSession a b) r, Some e)"
  "answered r (perform (Call_stopSession a) r, Some e)"
  "answered r (perform (Callback x) r, None)"
  "answered r (perform (Callback x) (perform (Call_spawnSession a b) r), None)"
  "answered r (perform (Callback x) (perform (Call_stopSession a) r), None)"
  by (simp_all add: answered_def)

lemma spawn_branch_answered: "answered r (spawn_branch d c r)"
  by (simp add: spawn_branch_def Let_def split: option.split sum.split outcome.split)

lemma stop_branch_answered: "answered r (stop_branch d c r)"
  by (simp add: stop_branch_def Let_def split: option.split sum.split outcome.split)

lemma rpc_try_answered: "answered r (rpc_try d c r)"
  by (simp add: rpc_try_def spawn_branch_answered stop_branch_answered)
     (simp add: stop_daemon_branch_def answered_def)

lemma rpc_catch_answers_once:
  "e \<noteq> ThrownNullish \<Longrightarrow>
   snd (rpc_catch e r) = None
   \<and> (\<exists>x. responses (effects (fst (rpc_catch e r))) = responses (effects r) @ [x])"
  by (cases e) simp_all

lemma rpc_request_answers_once:
  assumes "snd (rpc_try d c r) \<noteq> Some ThrownNullish"
  shows "snd (rpc_request d c r) = None
    \<and> (\<exists>x. responses (effects (fst (rpc_request d c r))) = responses (effects r) @ [x])"
proof (cases "rpc_try d c r")
  case (Pair r' res)
  have ans: "answered r (r', res)"
    using rpc_try_answered [of r d c] Pair by simp
  show ?thesis
  proof (cases res)
    case None
    with Pair ans show ?thesis
      by (simp add: rpc_request_def answered_def)
  next
    case (Some e)
    with Pair assms have ne: "e \<noteq> ThrownNullish" by simp
    from ans Some have same: "responses (effects r') = responses (effects r)"
      by (simp add: answered_def)
    from Pair Some rpc_catch_answers_once [OF ne, of r'] same show ?thesis
      by (simp add: rpc_request_def)
  qed
qed







section \<open>The stop-daemon request and its timer\<close>

lemma stop_daemon_request_result:
  "rpc_method d = stopDaemonMethod (machine c) \<Longrightarrow>
   rpc_request d c r =
     (setTimeout Shutdown_from_rpc 100 (perform (Callback stop_daemon_ack) r), None)"
  by (simp add: rpc_request_def rpc_try_def stop_daemon_branch_def method_names_distinct)

lemma run_task_timeouts_update:
  "run_task tk c (r\<lparr>timeouts := X\<rparr>) = (run_task tk c r)\<lparr>timeouts := X\<rparr>"
  by (auto simp add: run_task_def perform_def Let_def
      split: task.splits option.splits outcome.splits)

lemma run_due_timeouts_update:
  "run_due t c ts (r\<lparr>timeouts := X\<rparr>) = (run_due t c ts r)\<lparr>timeouts := X\<rparr>"
  by (induction ts arbitrary: r) (auto simp: run_task_timeouts_update)

lemma run_due_snoc:
  "run_due t c (ts @ [(due, tk)]) r =
     (if due \<le> t then run_task tk c (run_due t c ts r) else run_due t c ts r)"
  by (induction ts arbitrary: r) auto

lemma run_task_grows: "\<exists>more. effects (run_task tk c r) = effects r @ more"
  by (auto simp add: run_task_def perform_def Let_def
      split: task.splits option.splits outcome.splits)

lemma run_due_grows: "\<exists>more. effects (run_due t c ts r) = effects r @ more"
proof (induction ts arbitrary: r)
  case Nil
  show ?case by simp
next
  case (Cons x ts)
  obtain due tk where x: "x = (due, tk)" by (cases x)
  show ?case
  proof (cases "due \<le> t")
    case True
    obtain m1 where m1: "effects (run_task tk c r) = effects r @ m1"
      using run_task_grows by blast
    obtain m2 where
      "effects (run_due t c ts (run_task tk c r)) = effects (run_task tk c r) @ m2"
      using Cons.IH by blast
    with m1 True x show ?thesis by simp
  next
    case False
    with Cons.IH x show ?thesis by simp
  qed
qed

lemma advance_to_grows: "\<exists>more. effects (advance_to t c r) = effects r @ more"
  using run_due_grows [of t c "timeouts r"
      "r\<lparr>clock := max t (clock r), timeouts := filter (\<lambda>p. \<not> fst p \<le> t) (timeouts r)\<rparr>"]
  by (simp add: advance_to_def Let_def)

text \<open>The timer set last runs last, once its due time has come, and not before.\<close>

lemma advance_to_after_setTimeout:
  "advance_to t c (setTimeout tk delay r) =
     (if clock r + delay \<le> t
      then run_task tk c (advance_to t c r)
      else (advance_to t c r)\<lparr>timeouts := timeouts (advance_to t c r) @ [(clock r + delay, tk)]\<rparr>)"
  by (simp add: advance_to_def setTimeout_def Let_def run_due_snoc run_due_timeouts_update
        run_task_timeouts_update)

text \<open>
  C6: a request addressed to the stop-daemon method is answered with the acknowledgement
  at once, and the dispatcher itself calls no handler: it sets a one-shot timer of 100
  milliseconds. Whatever the state of the client when time has passed, before 100
  milliseconds are over the timer has added nothing to what happens anyway; from then on
  the timer's callback (the one place that calls the shutdown handler) has run, after
  everything else that was due; and the acknowledgement comes before all of it.
\<close>

theorem stop_daemon_ack_before_shutdown:
  assumes "rpc_method d = stopDaemonMethod (machine c)"
  shows "rpc_request d c r =
           (setTimeout Shutdown_from_rpc 100 (perform (Callback stop_daemon_ack) r), None)
    \<and> effects (fst (rpc_request d c r)) = effects r @ [Callback stop_daemon_ack]
    \<and> timeouts (fst (rpc_request d c r)) = timeouts r @ [(clock r + 100, Shutdown_from_rpc)]
    \<and> (t < clock r + 100 \<longrightarrow>
         effects (advance_to t c' (fst (rpc_request d c r))) =
         effects (advance_to t c' (perform (Callback stop_daemon_ack) r)))
    \<and> (clock r + 100 \<le> t \<longrightarrow>
         effects (advance_to t c' (fst (rpc_request d c r))) =
         effects (run_task Shutdown_from_rpc c'
                    (advance_to t c' (perform (Callback stop_daemon_ack) r))))
    \<and> (\<exists>more. effects (advance_to t c' (perform (Callback stop_daemon_ack) r)) =
           effects r @ Callback stop_daemon_ack # more)"
proof -
  let ?r1 = "perform (Callback stop_daemon_ack) r"
  let ?r2 = "setTimeout Shutdown_from_rpc 100 ?r1"
  have req: "rpc_request d c r = (?r2, None)"
    using assms by (rule stop_daemon_request_result)
  have clk: "clock ?r1 = clock r"
    by (simp add: perform_def)
  have eff: "effects ?r2 = effects r @ [Callback stop_daemon_ack]"
    by (simp add: setTimeout_def perform_def)
  have tmo: "timeouts ?r2 = timeouts r @ [(clock r + 100, Shutdown_from_rpc)]"
    by (simp add: setTimeout_def perform_def)
  have early: "t < clock r + 100 \<longrightarrow>
      effects (advance_to t c' ?r2) = effects (advance_to t c' ?r1)"
    by (simp add: advance_to_after_setTimeout clk)
  have late: "clock r + 100 \<le> t \<longrightarrow>
      effects (advance_to t c' ?r2) =
      effects (run_task Shutdown_from_rpc c' (advance_to t c' ?r1))"
    by (simp add: advance_to_after_setTimeout clk)
  obtain more where "effects (advance_to t c' ?r1) = effects ?r1 @ more"
    using advance_to_grows by blast
  then have pre: "\<exists>more. effects (advance_to t c' ?r1) =
      effects r @ Callback stop_daemon_ack # more"
    by (simp add: perform_def)
  show ?thesis using req eff tmo early late pre by simp
qed

text \<open>
  A request at time 1000 with a shutdown handler bound: at 1099 only the acknowledgement
  has happened, at 1100 the handler has been called after it.
\<close>

theorem stop_daemon_ack_before_shutdown_witness:
  "rpc_method stop_daemon_request = stopDaemonMethod (machine example_client)
   \<and> (1099::nat) < clock (fresh_runtime 1000 1) + 100
   \<and> effects (advance_to 1099 (example_client\<lparr>requestShutdown := Some quiet_shutdown\<rparr>)
        (fst (rpc_request stop_daemon_request example_client (fresh_runtime 1000 1)))) =
      [Callback stop_daemon_ack]
   \<and> clock (fresh_runtime 1000 1) + 100 \<le> (1100::nat)
   \<and> effects (advance_to 1100 (example_client\<lparr>requestShutdown := Some quiet_shutdown\<rparr>)
        (fst (rpc_request stop_daemon_request example_client (fresh_runtime 1000 1)))) =
      [Callback stop_daemon_ack, Call_requestShutdown]"
  using stop_daemon_ack_before_shutdown [of stop_daemon_request example_client
      "fresh_runtime 1000 1" 1099 "example_client\<lparr>requestShutdown := Some quiet_shutdown\<rparr>"]
    stop_daemon_ack_before_shutdown [of stop_daemon_request example_client
      "fresh_runtime 1000 1" 1100 "example_client\<lparr>requestShutdown := Some quiet_shutdown\<rparr>"]
  by (simp add: example_methods stop_daemon_request_def)
     (simp add: advance_to_def run_task_def perform_def fresh_runtime_def quiet_shutdown_def
        Let_def)

text \<open>
  C10: a request addressed to the stop-daemon method while no shutdown handler is bound
  is still answered with the acknowledgement, which is not an error object, and nothing
  leaves the dispatcher. When the timer's callback runs and the handler is still not
  bound, it does nothing: at no later time is there any effect that would not have
  happened without the timer, so no error is ever reported to the caller.
\<close>

theorem stop_daemon_unbound_silent:
  assumes "rpc_method d = stopDaemonMethod (machine c)" and "requestShutdown c = None"
  shows "rpc_request d c r =
           (setTimeout Shutdown_from_rpc 100 (perform (Callback stop_daemon_ack) r), None)
    \<and> responses (effects (fst (rpc_request d c r))) = responses (effects r) @ [stop_daemon_ack]
    \<and> stop_daemon_ack \<noteq> error_object msg
    \<and> run_task Shutdown_from_rpc c r' = r'
    \<and> effects (advance_to t c (fst (rpc_request d c r))) =
        effects (advance_to t c (perform (Callback stop_daemon_ack) r))"
proof -
  let ?r1 = "perform (Callback stop_daemon_ack) r"
  have req: "rpc_request d c r = (setTimeout Shutdown_from_rpc 100 ?r1, None)"
    using assms(1) by (rule stop_daemon_request_result)
  have idle: "\<And>x. run_task Shutdown_from_rpc c x = x"
    using assms(2) by (simp add: run_task_def)
  have ack: "stop_daemon_ack \<noteq> error_object msg"
    by (simp add: stop_daemon_ack_def error_object_def)
  have later: "effects (advance_to t c (setTimeout Shutdown_from_rpc 100 ?r1)) =
      effects (advance_to t c ?r1)"
    by (simp add: advance_to_after_setTimeout idle)
  show ?thesis using req idle ack later by simp
qed

theorem stop_daemon_unbound_silent_witness:
  "rpc_method stop_daemon_request = stopDaemonMethod (machine example_client)
   \<and> requestShutdown example_client = None
   \<and> rpc_request stop_daemon_request example_client (fresh_runtime 1000 1) =
      ((fresh_runtime 1000 1)\<lparr>timeouts := [(1100, Shutdown_from_rpc)],
          effects := [Callback stop_daemon_ack]\<rparr>, None)
   \<and> effects (advance_to 5000 example_client
        (fst (rpc_request stop_daemon_request example_client (fresh_runtime 1000 1)))) =
      [Callback stop_daemon_ack]"
  using stop_daemon_unbound_silent [of stop_daemon_request example_client
      "fresh_runtime 1000 1" _ _ 5000]
  by (simp add: example_methods example_handlers stop_daemon_request_def)
     (simp add: advance_to_def setTimeout_def perform_def fresh_runtime_def Let_def)

section \<open>Properties of update ingest and of the versions\<close>

lemma ingest_metadata_frame:
  "daemonState (fst (ingest_metadata u m)) = daemonState m"
  "daemonStateVersion (fst (ingest_metadata u m)) = daemonStateVersion m"
  "machine_id (fst (ingest_metadata u m)) = machine_id m"
  by (simp_all add: ingest_metadata_def split: option.split sum.split)

lemma ingest_daemonState_frame:
  "metadata (fst (ingest_daemonState u m)) = metadata m"
  "metadataVersion (fst (ingest_daemonState u m)) = metadataVersion m"
  "machine_id (fst (ingest_daemonState u m)) = machine_id m"
  by (simp_all add: ingest_daemonState_def split: option.split sum.split)

lemma on_update_matching:
  "tag b = ''update-machine'' \<Longrightarrow> u_machineId b = Some (machine_id m) \<Longrightarrow>
   on_update b m =
     (case ingest_metadata (u_metadata b) m of
        (m1, Some e) \<Rightarrow> (m1, Some e)
      | (m1, None) \<Rightarrow> ingest_daemonState (u_daemonState b) m1)"
  by (simp add: on_update_def)

text \<open>
  C8 (as the code has it): an update whose type tag is not the machine update tag, or
  whose machine id is not the local one, changes no field of the machine. For a matching
  update, the machine id never changes; without a metadata sub-update the metadata and its
  version stay; without a daemon state sub-update the daemon state and its version stay;
  with neither nothing changes. When the values carried deserialise, a metadata
  sub-update alone overwrites exactly the metadata and its version, a daemon state
  sub-update alone exactly the daemon state and its version, and both together exactly
  the two pairs. The metadata sub-update is handled first: when its value does not
  deserialise the handler throws there and the machine is left as it was, whatever the
  daemon state sub-update is; when the daemon state value does not deserialise the
  handler throws after the metadata sub-update, if there is one, has overwritten the
  metadata and its version, and the daemon state and its version are left as they were.
\<close>

theorem update_ingest_frame:
  "(tag b \<noteq> ''update-machine'' \<or> u_machineId b \<noteq> Some (machine_id m) \<longrightarrow>
      on_update b m = (m, None))
   \<and> (tag b = ''update-machine'' \<and> u_machineId b = Some (machine_id m) \<longrightarrow>
        machine_id (fst (on_update b m)) = machine_id m
      \<and> (u_metadata b = None \<longrightarrow>
           metadata (fst (on_update b m)) = metadata m
         \<and> metadataVersion (fst (on_update b m)) = metadataVersion m)
      \<and> (u_daemonState b = None \<longrightarrow>
           daemonState (fst (on_update b m)) = daemonState m
         \<and> daemonStateVersion (fst (on_update b m)) = daemonStateVersion m)
      \<and> (u_metadata b = None \<and> u_daemonState b = None \<longrightarrow> on_update b m = (m, None))
      \<and> (u_metadata b = Some \<lparr>wire_value = Decodes x, wire_version = v\<rparr>
           \<and> u_daemonState b = None \<longrightarrow>
           on_update b m = (m\<lparr>metadata := x, metadataVersion := v\<rparr>, None))
      \<and> (u_metadata b = None
           \<and> u_daemonState b = Some \<lparr>wire_value = Decodes y, wire_version = w\<rparr> \<longrightarrow>
           on_update b m = (m\<lparr>daemonState := y, daemonStateVersion := w\<rparr>, None))
      \<and> (u_metadata b = Some \<lparr>wire_value = Decodes x, wire_version = v\<rparr>
           \<and> u_daemonState b = Some \<lparr>wire_value = Decodes y, wire_version = w\<rparr> \<longrightarrow>
           on_update b m =
             (m\<lparr>metadata := x, metadataVersion := v,
                daemonState := y, daemonStateVersion := w\<rparr>, None))
      \<and> (u_metadata b = Some \<lparr>wire_value = Unparsable syn, wire_version = v\<rparr> \<longrightarrow>
           on_update b m = (m, Some (ThrownError ''SyntaxError'' syn)))
      \<and> (u_metadata b = None
           \<and> u_daemonState b = Some \<lparr>wire_value = Unparsable syn, wire_version = w\<rparr> \<longrightarrow>
           on_update b m = (m, Some (ThrownError ''SyntaxError'' syn)))
      \<and> (u_metadata b = Some \<lparr>wire_value = Decodes x, wire_version = v\<rparr>
           \<and> u_daemonState b = Some \<lparr>wire_value = Unparsable syn, wire_version = w\<rparr> \<longrightarrow>
           on_update b m =
             (m\<lparr>metadata := x, metadataVersion := v\<rparr>,
              Some (ThrownError ''SyntaxError'' syn))))"
proof -
  have other: "tag b \<noteq> ''update-machine'' \<or> u_machineId b \<noteq> Some (machine_id m) \<longrightarrow>
      on_update b m = (m, None)"
    by (auto simp: on_update_def)
  have frame: "tag b = ''update-machine'' \<and> u_machineId b = Some (machine_id m) \<longrightarrow>
        machine_id (fst (on_update b m)) = machine_id m
      \<and> (u_metadata b = None \<longrightarrow>
           metadata (fst (on_update b m)) = metadata m
         \<and> metadataVersion (fst (on_update b m)) = metadataVersion m)
      \<and> (u_daemonState b = None \<longrightarrow>
           daemonState (fst (on_update b m)) = daemonState m
         \<and> daemonStateVersion (fst (on_update b m)) = daemonStateVersion m)"
    by (auto simp: on_update_matching ingest_metadata_def ingest_daemonState_def
        split: option.split sum.split prod.split)
  have effect: "tag b = ''update-machine'' \<and> u_machineId b = Some (machine_id m) \<longrightarrow>
        (u_metadata b = None \<and> u_daemonState b = None \<longrightarrow> on_update b m = (m, None))
      \<and> (u_metadata b = Some \<lparr>wire_value = Decodes x, wire_version = v\<rparr>
           \<and> u_daemonState b = None \<longrightarrow>
           on_update b m = (m\<lparr>metadata := x, metadataVersion := v\<rparr>, None))
      \<and> (u_metadata b = None
           \<and> u_daemonState b = Some \<lparr>wire_value = Decodes y, wire_version = w\<rparr> \<longrightarrow>
           on_update b m = (m\<lparr>daemonState := y, daemonStateVersion := w\<rparr>, None))
      \<and> (u_metadata b = Some \<lparr>wire_value = Decodes x, wire_version = v\<rparr>
           \<and> u_daemonState b = Some \<lparr>wire_value = Decodes y, wire_version = w\<rparr> \<longrightarrow>
           on_update b m =
             (m\<lparr>metadata := x, metadataVersion := v,
                daemonState := y, daemonStateVersion := w\<rparr>, None))"
    by (simp add: on_update_matching ingest_metadata_def ingest_daemonState_def)
  have thrown: "tag b = ''update-machine'' \<and> u_machineId b = Some (machine_id m) \<longrightarrow>
        (u_metadata b = Some \<lparr>wire_value = Unparsable syn, wire_version = v\<rparr> \<longrightarrow>
           on_update b m = (m, Some (ThrownError ''SyntaxError'' syn)))
      \<and> (u_metadata b = None
           \<and> u_daemonState b = Some \<lparr>wire_value = Unparsable syn, wire_version = w\<rparr> \<longrightarrow>
           on_update b m = (m, Some (ThrownError ''SyntaxError'' syn)))
      \<and> (u_metadata b = Some \<lparr>wire_value = Decodes x, wire_version = v\<rparr>
           \<and> u_daemonState b = Some \<lparr>wire_value = Unparsable syn, wire_version = w\<rparr> \<longrightarrow>
           on_update b m =
             (m\<lparr>metadata := x, metadataVersion := v\<rparr>,
              Some (ThrownError ''SyntaxError'' syn)))"
    by (simp add: on_update_matching ingest_metadata_def ingest_daemonState_def)
  from other frame effect thrown show ?thesis by blast
qed

text \<open>
  An update for another machine changes nothing; a matching update with both sub-updates
  overwrites both pairs; a matching update whose metadata value is not JSON changes
  nothing although its daemon state value is fine; and a matching update whose daemon
  state value is not JSON still overwrites the metadata.
\<close>

theorem update_ingest_frame_witness:
  "u_machineId (pushed_both\<lparr>u_machineId := Some ''m2''\<rparr>) \<noteq> Some (machine_id example_machine)
   \<and> on_update (pushed_both\<lparr>u_machineId := Some ''m2''\<rparr>) example_machine
       = (example_machine, None)
   \<and> tag pushed_both = ''update-machine''
   \<and> u_machineId pushed_both = Some (machine_id example_machine)
   \<and> on_update pushed_both example_machine =
       (example_machine\<lparr>metadata := JStr ''laptop'', metadataVersion := 7,
          daemonState := JStr ''running'', daemonStateVersion := 9\<rparr>, None)
   \<and> u_metadata pushed_garbled_metadata =
       Some \<lparr>wire_value = Unparsable ''Unexpected token'', wire_version = 7\<rparr>
   \<and> on_update pushed_garbled_metadata example_machine =
       (example_machine, Some (ThrownError ''SyntaxError'' ''Unexpected token''))
   \<and> u_daemonState pushed_garbled_daemonState =
       Some \<lparr>wire_value = Unparsable ''Unexpected end'', wire_version = 9\<rparr>
   \<and> on_update pushed_garbled_daemonState example_machine =
       (example_machine\<lparr>metadata := JStr ''laptop'', metadataVersion := 7\<rparr>,
        Some (ThrownError ''SyntaxError'' ''Unexpected end''))"
  using update_ingest_frame [of "pushed_both\<lparr>u_machineId := Some ''m2''\<rparr>" example_machine]
    update_ingest_frame [of pushed_both example_machine "JStr ''laptop''" 7 "JStr ''running''" 9]
    update_ingest_frame [of pushed_garbled_metadata example_machine _ 7 _ _ "''Unexpected token''"]
    update_ingest_frame [of pushed_garbled_daemonState example_machine "JStr ''laptop''" 7 _ 9
      "''Unexpected end''"]
  by (simp add: pushed_both_def pushed_garbled_metadata_def pushed_garbled_daemonState_def
        example_machine_def)

text \<open>
  A matching update whose metadata value is not JSON and whose daemon state value is:
  the handler throws at the metadata, and the daemon state sub-update overwrites nothing.
\<close>

theorem garbled_metadata_blocks_daemonState:
  "tag pushed_garbled_metadata = ''update-machine''
   \<and> u_machineId pushed_garbled_metadata = Some (machine_id example_machine)
   \<and> u_daemonState pushed_garbled_metadata =
       Some \<lparr>wire_value = Decodes (JStr ''running''), wire_version = 9\<rparr>
   \<and> on_update pushed_garbled_metadata example_machine =
       (example_machine, Some (ThrownError ''SyntaxError'' ''Unexpected token''))
   \<and> daemonState example_machine \<noteq> JStr ''running''
   \<and> daemonStateVersion example_machine \<noteq> 9"
  by (simp add: on_update_def ingest_metadata_def pushed_garbled_metadata_def
        example_machine_def)

lemma metadata_ack_versions:
  "daemonStateVersion (fst (metadata_ack a m)) = daemonStateVersion m"
  "\<not> stale (Metadata_ack a) m \<Longrightarrow> metadataVersion m \<le> metadataVersion (fst (metadata_ack a m))"
  by (cases a; simp add: metadata_ack_def Let_def split: sum.split)+

lemma daemonState_ack_versions:
  "metadataVersion (fst (daemonState_ack a m)) = metadataVersion m"
  "\<not> stale (DaemonState_ack a) m \<Longrightarrow>
     daemonStateVersion m \<le> daemonStateVersion (fst (daemonState_ack a m))"
  by (cases a; simp add: daemonState_ack_def Let_def split: sum.split)+

lemma ingest_metadata_version:
  "\<not> lower_version u (metadataVersion m) \<Longrightarrow>
     metadataVersion m \<le> metadataVersion (fst (ingest_metadata u m))"
  by (auto simp add: ingest_metadata_def lower_version_def split: option.split sum.split)

lemma ingest_daemonState_version:
  "\<not> lower_version u (daemonStateVersion m) \<Longrightarrow>
     daemonStateVersion m \<le> daemonStateVersion (fst (ingest_daemonState u m))"
  by (auto simp add: ingest_daemonState_def lower_version_def split: option.split sum.split)

lemma on_update_versions:
  assumes "\<not> stale (Pushed b) m"
  shows "metadataVersion m \<le> metadataVersion (fst (on_update b m))"
    and "daemonStateVersion m \<le> daemonStateVersion (fst (on_update b m))"
proof -
  show "metadataVersion m \<le> metadataVersion (fst (on_update b m))"
  proof (cases "tag b = ''update-machine'' \<and> u_machineId b = Some (machine_id m)")
    case True
    with assms have "\<not> lower_version (u_metadata b) (metadataVersion m)" by simp
    then have "metadataVersion m \<le> metadataVersion (fst (ingest_metadata (u_metadata b) m))"
      by (rule ingest_metadata_version)
    with True show ?thesis
      by (cases "ingest_metadata (u_metadata b) m")
         (auto simp: on_update_matching ingest_daemonState_frame split: option.split)
  next
    case False
    then show ?thesis by (auto simp: on_update_def)
  qed
  show "daemonStateVersion m \<le> daemonStateVersion (fst (on_update b m))"
  proof (cases "tag b = ''update-machine'' \<and> u_machineId b = Some (machine_id m)")
    case True
    with assms have low: "\<not> lower_version (u_daemonState b) (daemonStateVersion m)" by simp
    obtain m1 res where m1: "ingest_metadata (u_metadata b) m = (m1, res)"
      by (cases "ingest_metadata (u_metadata b) m")
    have same: "daemonStateVersion m1 = daemonStateVersion m"
      using ingest_metadata_frame(2) [of "u_metadata b" m] m1 by simp
    from low same have "\<not> lower_version (u_daemonState b) (daemonStateVersion m1)"
      by simp
    then have "daemonStateVersion m1
        \<le> daemonStateVersion (fst (ingest_daemonState (u_daemonState b) m1))"
      by (rule ingest_daemonState_version)
    with True m1 same show ?thesis
      by (cases res) (simp_all add: on_update_matching)
  next
    case False
    then show ?thesis by (auto simp: on_update_def)
  qed
qed

lemma mutate_versions:
  assumes "\<not> stale x m"
  shows "metadataVersion m \<le> metadataVersion (mutate x m)
    \<and> daemonStateVersion m \<le> daemonStateVersion (mutate x m)"
proof (cases x)
  case (Metadata_ack a)
  with assms show ?thesis by (simp add: metadata_ack_versions)
next
  case (DaemonState_ack a)
  with assms show ?thesis by (simp add: daemonState_ack_versions)
next
  case (Pushed b)
  with assms on_update_versions [of b m] show ?thesis by simp
qed

lemma mutate_all_versions:
  "never_stale xs m \<Longrightarrow>
   metadataVersion m \<le> metadataVersion (mutate_all xs m)
   \<and> daemonStateVersion m \<le> daemonStateVersion (mutate_all xs m)"
proof (induction xs arbitrary: m)
  case Nil
  show ?case by simp
next
  case (Cons x xs)
  from Cons.prems have fresh: "\<not> stale x m" and rest: "never_stale xs (mutate x m)"
    by simp_all
  from mutate_versions [OF fresh] Cons.IH [OF rest] show ?case
    by (simp del: mutate.simps)
qed

lemma metadata_ack_pair:
  assumes ok: "not_garbled_mismatch (Metadata_ack a)"
  shows "(metadata (fst (metadata_ack a m)), metadataVersion (fst (metadata_ack a m)))
      = (metadata m, metadataVersion m)
   \<or> metadata_received (Metadata_ack a)
      = Some (metadata (fst (metadata_ack a m)), metadataVersion (fst (metadata_ack a m)))"
proof (cases a)
  case Result_error
  then show ?thesis by (simp add: metadata_ack_def)
next
  case (Result_version_mismatch v w)
  with ok show ?thesis by (cases w) (simp_all add: metadata_ack_def Let_def)
next
  case (Result_success v w)
  with ok show ?thesis by (cases w) (simp_all add: metadata_ack_def)
qed

lemma daemonState_ack_pair:
  assumes ok: "not_garbled_mismatch (DaemonState_ack a)"
  shows "(daemonState (fst (daemonState_ack a m)), daemonStateVersion (fst (daemonState_ack a m)))
      = (daemonState m, daemonStateVersion m)
   \<or> daemonState_received (DaemonState_ack a)
      = Some (daemonState (fst (daemonState_ack a m)),
              daemonStateVersion (fst (daemonState_ack a m)))"
proof (cases a)
  case Result_error
  then show ?thesis by (simp add: daemonState_ack_def)
next
  case (Result_version_mismatch v w)
  with ok show ?thesis by (cases w) (simp_all add: daemonState_ack_def Let_def)
next
  case (Result_success v w)
  with ok show ?thesis by (cases w) (simp_all add: daemonState_ack_def)
qed

lemma ack_other_pair:
  "metadata (fst (daemonState_ack a m)) = metadata m"
  "metadataVersion (fst (daemonState_ack a m)) = metadataVersion m"
  "daemonState (fst (metadata_ack a m)) = daemonState m"
  "daemonStateVersion (fst (metadata_ack a m)) = daemonStateVersion m"
  by (cases a; simp add: metadata_ack_def daemonState_ack_def Let_def split: sum.split)+

lemma ingest_metadata_pair:
  "(metadata (fst (ingest_metadata u m)), metadataVersion (fst (ingest_metadata u m)))
      = (metadata m, metadataVersion m)
   \<or> received_sub u
      = Some (metadata (fst (ingest_metadata u m)), metadataVersion (fst (ingest_metadata u m)))"
proof (cases u)
  case None
  then show ?thesis by (simp add: ingest_metadata_def)
next
  case (Some x)
  then show ?thesis
    by (cases "wire_value x") (simp_all add: ingest_metadata_def received_sub_def)
qed

lemma ingest_daemonState_pair:
  "(daemonState (fst (ingest_daemonState u m)), daemonStateVersion (fst (ingest_daemonState u m)))
      = (daemonState m, daemonStateVersion m)
   \<or> received_sub u
      = Some (daemonState (fst (ingest_daemonState u m)),
              daemonStateVersion (fst (ingest_daemonState u m)))"
proof (cases u)
  case None
  then show ?thesis by (simp add: ingest_daemonState_def)
next
  case (Some x)
  then show ?thesis
    by (cases "wire_value x") (simp_all add: ingest_daemonState_def received_sub_def)
qed

lemma on_update_metadata_pair:
  "(metadata (fst (on_update b m)), metadataVersion (fst (on_update b m)))
      = (metadata m, metadataVersion m)
   \<or> received_sub (u_metadata b)
      = Some (metadata (fst (on_update b m)), metadataVersion (fst (on_update b m)))"
proof (cases "tag b = ''update-machine'' \<and> u_machineId b = Some (machine_id m)")
  case True
  obtain m1 res where m1: "ingest_metadata (u_metadata b) m = (m1, res)"
    by (cases "ingest_metadata (u_metadata b) m")
  have "metadata (fst (on_update b m)) = metadata m1
      \<and> metadataVersion (fst (on_update b m)) = metadataVersion m1"
    using True m1 by (cases res) (simp_all add: on_update_matching ingest_daemonState_frame)
  with ingest_metadata_pair [of "u_metadata b" m] m1 show ?thesis by simp
next
  case False
  then show ?thesis by (auto simp: on_update_def)
qed

lemma on_update_daemonState_pair:
  "(daemonState (fst (on_update b m)), daemonStateVersion (fst (on_update b m)))
      = (daemonState m, daemonStateVersion m)
   \<or> received_sub (u_daemonState b)
      = Some (daemonState (fst (on_update b m)), daemonStateVersion (fst (on_update b m)))"
proof (cases "tag b = ''update-machine'' \<and> u_machineId b = Some (machine_id m)")
  case True
  obtain m1 res where m1: "ingest_metadata (u_metadata b) m = (m1, res)"
    by (cases "ingest_metadata (u_metadata b) m")
  have same: "daemonState m1 = daemonState m" "daemonStateVersion m1 = daemonStateVersion m"
    using ingest_metadata_frame(1,2) [of "u_metadata b" m] m1 by simp_all
  show ?thesis
  proof (cases res)
    case None
    with True m1 have "on_update b m = ingest_daemonState (u_daemonState b) m1"
      by (simp add: on_update_matching)
    with ingest_daemonState_pair [of "u_daemonState b" m1] same show ?thesis by simp
  next
    case (Some e)
    with True m1 same show ?thesis by (simp add: on_update_matching)
  qed
next
  case False
  then show ?thesis by (auto simp: on_update_def)
qed

text \<open>
  C4 (as the code has it): over any sequence of mutations of the machine (metadata
  acknowledgements, daemon state acknowledgements, pushed updates) in which no mutation
  is stale at the moment it is applied, the metadata version and the daemon state
  version do not decrease. And for every single mutation other than the acknowledgement
  of a version mismatch whose value does not deserialise, the metadata with its version is
  afterwards either the pair it was or the pair received, and so is the daemon state
  with its version.
\<close>

theorem versions_monotone_when_fresh:
  "(never_stale xs m \<longrightarrow>
      metadataVersion m \<le> metadataVersion (mutate_all xs m)
    \<and> daemonStateVersion m \<le> daemonStateVersion (mutate_all xs m))
   \<and> (not_garbled_mismatch x \<longrightarrow>
      ((metadata (mutate x m), metadataVersion (mutate x m)) = (metadata m, metadataVersion m)
       \<or> metadata_received x = Some (metadata (mutate x m), metadataVersion (mutate x m)))
    \<and> ((daemonState (mutate x m), daemonStateVersion (mutate x m))
          = (daemonState m, daemonStateVersion m)
       \<or> daemonState_received x
          = Some (daemonState (mutate x m), daemonStateVersion (mutate x m))))"
proof -
  have mono: "never_stale xs m \<longrightarrow>
      metadataVersion m \<le> metadataVersion (mutate_all xs m)
    \<and> daemonStateVersion m \<le> daemonStateVersion (mutate_all xs m)"
    using mutate_all_versions by blast
  have pair: "not_garbled_mismatch x \<longrightarrow>
      ((metadata (mutate x m), metadataVersion (mutate x m)) = (metadata m, metadataVersion m)
       \<or> metadata_received x = Some (metadata (mutate x m), metadataVersion (mutate x m)))
    \<and> ((daemonState (mutate x m), daemonStateVersion (mutate x m))
          = (daemonState m, daemonStateVersion m)
       \<or> daemonState_received x
          = Some (daemonState (mutate x m), daemonStateVersion (mutate x m)))"
  proof (cases x)
    case (Metadata_ack a)
    with metadata_ack_pair [of a m] show ?thesis by (simp add: ack_other_pair)
  next
    case (DaemonState_ack a)
    with daemonState_ack_pair [of a m] show ?thesis by (simp add: ack_other_pair)
  next
    case (Pushed b)
    with on_update_metadata_pair [of b m] on_update_daemonState_pair [of b m]
    show ?thesis by simp
  qed
  from mono pair show ?thesis by blast
qed

text \<open>
  From version 3 of both fields: a mismatch reporting metadata version 5, a pushed update
  with metadata version 7 and daemon state version 9, and a daemon state success at
  version 10. No step is stale, and the versions end at 7 and 10.
\<close>

theorem versions_monotone_when_fresh_witness:
  "never_stale
     [Metadata_ack (Result_version_mismatch 5 (Decodes (JStr ''X''))), Pushed pushed_both,
      DaemonState_ack (Result_success 10 (Decodes JNull))] example_machine
   \<and> mutate_all
       [Metadata_ack (Result_version_mismatch 5 (Decodes (JStr ''X''))), Pushed pushed_both,
        DaemonState_ack (Result_success 10 (Decodes JNull))] example_machine =
      example_machine\<lparr>metadata := JStr ''laptop'', metadataVersion := 7,
        daemonState := JNull, daemonStateVersion := 10\<rparr>
   \<and> not_garbled_mismatch (Pushed pushed_both)
   \<and> metadata_received (Pushed pushed_both) = Some (JStr ''laptop'', 7)
   \<and> daemonState_received (Pushed pushed_both) = Some (JStr ''running'', 9)
   \<and> mutate (Pushed pushed_both) example_machine =
      example_machine\<lparr>metadata := JStr ''laptop'', metadataVersion := 7,
        daemonState := JStr ''running'', daemonStateVersion := 9\<rparr>"
  using versions_monotone_when_fresh
    [of "[Metadata_ack (Result_version_mismatch 5 (Decodes (JStr ''X''))), Pushed pushed_both,
          DaemonState_ack (Result_success 10 (Decodes JNull))]" example_machine
        "Pushed pushed_both"]
  by (simp add: metadata_ack_def daemonState_ack_def on_update_def ingest_metadata_def
        ingest_daemonState_def lower_version_def received_sub_def pushed_both_def
        example_machine_def)

text \<open>
  A pushed update that carries metadata version 2 reaches a machine at metadata version
  3: the version goes down to 2.
\<close>

theorem pushed_update_lowers_version:
  "metadataVersion example_machine = 3
   \<and> mutate_all [Pushed pushed_version_2] example_machine =
      example_machine\<lparr>metadata := JStr ''old name'', metadataVersion := 2\<rparr>
   \<and> metadataVersion (mutate_all [Pushed pushed_version_2] example_machine)
       < metadataVersion example_machine"
  by (simp add: on_update_def ingest_metadata_def ingest_daemonState_def pushed_version_2_def
        example_machine_def)

section \<open>Properties of the heartbeat\<close>

lemma perform_intervals [simp]: "intervals (perform x r) = intervals r"
  by (simp add: perform_def)

lemma perform_clock [simp]: "clock (perform x r) = clock r"
  by (simp add: perform_def)

lemma register_all_intervals [simp]: "intervals (register_all c r) = intervals r"
  by (simp add: register_all_def)

lemma register_all_clock [simp]: "clock (register_all c r) = clock r"
  by (simp add: register_all_def)






















end
